theory Spec2Isabelle
  imports Complex_Main
begin

section \<open>Values of the host language\<close>

text \<open>
  A number of the script is \<open>NaN\<close>, one of the two infinities, or a finite value. Finite
  values are kept as the rationals they denote and arithmetic on them is exact: rounding to
  the nearest double and the sign of zero are not represented. The properties below are
  case distinctions on \<open>NaN\<close>, zero and "any other number" and equations between
  expressions built from the same operations, so they do not depend on how a product is
  rounded.
\<close>

datatype jsnum = NaN | PInf | NInf | Fin rat

text \<open>The numbers that \<open>||\<close> and \<open>!\<close> treat as false.\<close>

definition falsy :: "jsnum \<Rightarrow> bool" where
  "falsy n = (n = NaN \<or> n = Fin 0)"

fun js_mul :: "jsnum \<Rightarrow> jsnum \<Rightarrow> jsnum" where
  "js_mul NaN _ = NaN"
| "js_mul _ NaN = NaN"
| "js_mul (Fin a) (Fin b) = Fin (a * b)"
| "js_mul (Fin a) PInf = (if a = 0 then NaN else if 0 < a then PInf else NInf)"
| "js_mul (Fin a) NInf = (if a = 0 then NaN else if 0 < a then NInf else PInf)"
| "js_mul PInf (Fin b) = (if b = 0 then NaN else if 0 < b then PInf else NInf)"
| "js_mul NInf (Fin b) = (if b = 0 then NaN else if 0 < b then NInf else PInf)"
| "js_mul PInf PInf = PInf"
| "js_mul PInf NInf = NInf"
| "js_mul NInf PInf = NInf"
| "js_mul NInf NInf = PInf"


text \<open>\<open>Math.ceil\<close>.\<close>

fun js_ceil :: "jsnum \<Rightarrow> jsnum" where
  "js_ceil (Fin a) = Fin (of_int \<lceil>a\<rceil>)"
| "js_ceil n = n"

text \<open>\<open>x || 0\<close> on a number.\<close>

definition orZero :: "jsnum \<Rightarrow> jsnum" where
  "orZero n = (if falsy n then Fin 0 else n)"

subsection \<open>Property reads on plain objects\<close>

text \<open>
  \<open>feeMatrix\<close>, \<open>regionMultipliers\<close> and \<open>fteIndexMap\<close> are object literals \<open>{}\<close>, so a
  read \<open>obj[key]\<close> that finds no own property continues in \<open>Object.prototype\<close>. The names
  found there are the standard ones of a browser. Each of them holds a function, or (for
  \<open>__proto__\<close>) the prototype object itself: a value that is truthy, that converts to the
  number \<open>NaN\<close>, and whose conversion to a property key is neither a decimal index nor any
  name that a function or \<open>Object.prototype\<close> has. The model keeps one value \<open>Builtin\<close> for
  all of them.
\<close>

definition objectPrototypeProps :: "string list" where
  "objectPrototypeProps =
     [''constructor'', ''hasOwnProperty'', ''isPrototypeOf'', ''propertyIsEnumerable'',
      ''toLocaleString'', ''toString'', ''valueOf'', ''__proto__'',
      ''__defineGetter__'', ''__defineSetter__'', ''__lookupGetter__'', ''__lookupSetter__'']"

datatype 'a lookup = Undefined | Own 'a | Builtin

definition getProp :: "(string \<rightharpoonup> 'a) \<Rightarrow> string \<Rightarrow> 'a lookup" where
  "getProp obj key =
     (case obj key of
        Some v \<Rightarrow> Own v
      | None \<Rightarrow> if key \<in> set objectPrototypeProps then Builtin else Undefined)"

text \<open>
  A write \<open>obj[key] = v\<close> of a number creates or replaces an own property, except for the
  key \<open>__proto__\<close>: that one is an inherited setter, which ignores a value that is not an
  object.
\<close>

definition setNumberProp :: "(string \<rightharpoonup> 'a) \<Rightarrow> string \<Rightarrow> 'a \<Rightarrow> (string \<rightharpoonup> 'a)" where
  "setNumberProp obj key v = (if key = ''__proto__'' then obj else obj(key \<mapsto> v))"

section \<open>The tables\<close>

record feeOption =
  optionValue :: string
  optionFee :: jsnum

record dropdownItem =
  itemValue :: string
  itemLabel :: string

text \<open>
  The global variables of the script. \<open>nonHigherEdFees\<close> and \<open>businessPartnerFees\<close> are
  \<open>Map\<close>s; the other three maps are plain objects and are read with \<open>getProp\<close>. In
  \<open>feeMatrix\<close> the rows are arrays, so a write under the key \<open>__proto__\<close> installs the row
  as the prototype of \<open>feeMatrix\<close> and a later read of \<open>feeMatrix["__proto__"]\<close> returns
  that row: the entry of the map at \<open>__proto__\<close> stands for it. The other names that
  become readable through such a row (its indices, \<open>length\<close>, the methods of arrays) hold
  numbers and functions, for which \<open>getFourYearFee\<close> gives \<open>0\<close> as it does for a name that
  is found nowhere.
\<close>

record tables =
  feeMatrix :: "string \<rightharpoonup> jsnum list"
  gieOptions :: "string list"
  nonHigherEdFees :: "string \<rightharpoonup> jsnum"
  businessPartnerFees :: "string \<rightharpoonup> jsnum"
  regionMultipliers :: "string \<rightharpoonup> jsnum"
  fteOptions :: "string list"
  fteIndexMap :: "string \<rightharpoonup> nat"
  twoYearGieOptions :: "feeOption list"
  businessPartnerLevels :: "dropdownItem list"
  regions :: "dropdownItem list"

text \<open>The state in which the script starts.\<close>

definition initialTables :: tables where
  "initialTables =
     \<lparr>feeMatrix = Map.empty, gieOptions = [], nonHigherEdFees = Map.empty,
      businessPartnerFees = Map.empty, regionMultipliers = Map.empty, fteOptions = [],
      fteIndexMap = Map.empty, twoYearGieOptions = [], businessPartnerLevels = [],
      regions = []\<rparr>"

section \<open>Fee lookups\<close>

text \<open>\<open>nonHigherEdFees.get(institutionType) || 0\<close>\<close>

definition getNonHigherEdFee :: "tables \<Rightarrow> string \<Rightarrow> jsnum" where
  "getNonHigherEdFee T institutionType =
     (case nonHigherEdFees T institutionType of None \<Rightarrow> Fin 0 | Some v \<Rightarrow> orZero v)"

text \<open>\<open>businessPartnerFees.get(level) || 0\<close>\<close>

definition getBusinessPartnerFee :: "tables \<Rightarrow> string \<Rightarrow> jsnum" where
  "getBusinessPartnerFee T level =
     (case businessPartnerFees T level of None \<Rightarrow> Fin 0 | Some v \<Rightarrow> orZero v)"

text \<open>
  \<open>regionMultipliers[region] || 0\<close>: an own multiplier unless it is falsy, \<open>0\<close> for a name
  that is found nowhere, and the inherited value itself (which multiplies to \<open>NaN\<close>) for a
  name of \<open>Object.prototype\<close>.
\<close>

definition multiplierOrZero :: "tables \<Rightarrow> string \<Rightarrow> jsnum" where
  "multiplierOrZero T region =
     (case getProp (regionMultipliers T) region of
        Undefined \<Rightarrow> Fin 0
      | Own m \<Rightarrow> orZero m
      | Builtin \<Rightarrow> NaN)"

text \<open>\<open>Math.ceil(baseFee * (regionMultipliers[region] || 0))\<close>\<close>

definition getRegionalFee :: "tables \<Rightarrow> string \<Rightarrow> jsnum \<Rightarrow> jsnum" where
  "getRegionalFee T region baseFee = js_ceil (js_mul baseFee (multiplierOrZero T region))"

text \<open>
  \<open>fteIndexMap[fie] || 0\<close>: \<open>Some i\<close> is the column index \<open>i\<close>, \<open>None\<close> is an inherited value,
  which is no index of any row.
\<close>

definition fieIndexOf :: "tables \<Rightarrow> string \<Rightarrow> nat option" where
  "fieIndexOf T fie =
     (case getProp (fteIndexMap T) fie of
        Undefined \<Rightarrow> Some 0
      | Own i \<Rightarrow> Some (if i = 0 then 0 else i)
      | Builtin \<Rightarrow> None)"

text \<open>\<open>row[fieIndex] || 0\<close>; a read beyond the end of an array is \<open>undefined\<close>.\<close>

definition cellOrZero :: "jsnum list \<Rightarrow> nat option \<Rightarrow> jsnum" where
  "cellOrZero row fieIndex =
     (case fieIndex of
        None \<Rightarrow> Fin 0
      | Some i \<Rightarrow> if i < length row then orZero (row ! i) else Fin 0)"

text \<open>
  \<open>getFourYearFee\<close>. An array is truthy even when empty, so an own row always passes the
  first test. An inherited value passes it too, and the read of \<open>fieIndex\<close> on it is
  \<open>undefined\<close>, which gives \<open>0\<close> again.
\<close>

definition getFourYearFee :: "tables \<Rightarrow> string \<Rightarrow> string \<Rightarrow> jsnum" where
  "getFourYearFee T fie gie =
     (case getProp (feeMatrix T) gie of
        Undefined \<Rightarrow> Fin 0
      | Builtin \<Rightarrow> Fin 0
      | Own row \<Rightarrow> cellOrZero row (fieIndexOf T fie))"

text \<open>\<open>twoYearGieOptions.find(option => option.value === gie)\<close>, then the fee of that option.\<close>

definition getTwoYearFee :: "tables \<Rightarrow> string \<Rightarrow> jsnum" where
  "getTwoYearFee T gie =
     (case find (\<lambda>option. optionValue option = gie) (twoYearGieOptions T) of
        None \<Rightarrow> Fin 0
      | Some selectedOption \<Rightarrow> optionFee selectedOption)"

section \<open>The fee calculation\<close>

text \<open>
  The part of the page that \<open>calculateFee\<close> touches: the \<open>value\<close> of the six dropdowns (the
  empty string when nothing is selected) and the \<open>textContent\<close> of the three result
  elements. A result line is the template literal of the script: its label followed by
  \<open>toFixed(2)\<close> of a number; \<open>FeeLine\<close> keeps the label and the number.
\<close>

datatype content = Text string | FeeLine string jsnum

record page =
  institutionTypeValue :: string
  fieValue :: string
  gieValue :: string
  gieTwoYearValue :: string
  businessLevelValue :: string
  regionValue :: string
  nationalFeeText :: content
  regionalFeeText :: content
  totalFeeText :: content





section \<open>The table loader\<close>

text \<open>
  Strings are lists of 8-bit characters, read as code units below 256. \<open>Number\<close> and
  \<open>toUpperCase\<close> are functions of the host; the loader takes them as they are.
\<close>

record host =
  Number :: "string \<Rightarrow> jsnum"
  toUpperCase :: "char \<Rightarrow> string"

text \<open>
  \<open>s.split(c)\<close> for a separator of one character: the first piece and the list of the
  pieces after it. There is always a first piece.
\<close>

fun split :: "char \<Rightarrow> string \<Rightarrow> string \<times> string list" where
  "split c [] = ([], [])"
| "split c (x # xs) =
     (case split c xs of (piece, pieces) \<Rightarrow>
        if x = c then ([], piece # pieces) else (x # piece, pieces))"

text \<open>The white space and line terminators below 256 that \<open>trim\<close> removes.\<close>

definition isWhiteSpace :: "char \<Rightarrow> bool" where
  "isWhiteSpace c =
     (c \<in> set [CHR 0x09, CHR 0x0A, CHR 0x0B, CHR 0x0C, CHR 0x0D, CHR 0x20, CHR 0xA0])"

definition trim :: "string \<Rightarrow> string" where
  "trim s = rev (dropWhile isWhiteSpace (rev (dropWhile isWhiteSpace s)))"

text \<open>\<open>cell.replace(/"/g, '').trim()\<close>\<close>

definition cleanCell :: "string \<Rightarrow> string" where
  "cleanCell cell = trim (filter (\<lambda>c. c \<noteq> CHR 0x22) cell)"

text \<open>A row: \<open>row[0]\<close> and \<open>row.slice(1)\<close>.\<close>

type_synonym row = "string \<times> string list"

text \<open>\<open>data.split('\n').map(row => row.split(',').map(...))\<close>\<close>

definition parseRows :: "string \<Rightarrow> row list" where
  "parseRows data =
     (case split (CHR 0x0A) data of (line, lines) \<Rightarrow>
        map (\<lambda>l. case split (CHR '','') l of (cell, cells) \<Rightarrow>
                    (cleanCell cell, map cleanCell cells))
            (line # lines))"

text \<open>\<open>findIndex\<close>, with \<open>None\<close> for \<open>-1\<close>.\<close>

fun findIndex :: "('a \<Rightarrow> bool) \<Rightarrow> 'a list \<Rightarrow> nat option" where
  "findIndex P [] = None"
| "findIndex P (x # xs) = (if P x then Some 0 else map_option Suc (findIndex P xs))"

text \<open>
  The test that ends a section. A row always has a first cell, so \<open>rows[i].length === 0\<close>
  never holds and the test is \<open>every(cell => cell === '')\<close>.
\<close>

definition blankRow :: "row \<Rightarrow> bool" where
  "blankRow r = (fst r = [] \<and> list_all (\<lambda>cell. cell = []) (snd r))"

definition parseSection :: "row list \<Rightarrow> string \<Rightarrow> row list" where
  "parseSection rows header =
     (case findIndex (\<lambda>r. fst r = header) rows of
        None \<Rightarrow> []
      | Some startIndex \<Rightarrow> takeWhile (\<lambda>r. \<not> blankRow r) (drop (startIndex + 1) rows))"

text \<open>\<open>Number(row[1])\<close>; \<open>row[1]\<close> of a row of one cell is \<open>undefined\<close>, whose number is \<open>NaN\<close>.\<close>

definition secondCellNumber :: "host \<Rightarrow> row \<Rightarrow> jsnum" where
  "secondCellNumber h r = (case snd r of [] \<Rightarrow> NaN | cell # _ \<Rightarrow> Number h cell)"

text \<open>"Parse the four-year institution fees".\<close>

definition loadFourYear :: "host \<Rightarrow> row list \<Rightarrow> tables \<Rightarrow> tables" where
  "loadFourYear h rows T =
     (let fourYearRows = parseSection rows ''Four-Year Institution Fees''
      in T\<lparr>gieOptions := map fst fourYearRows,
           feeMatrix := fold (\<lambda>r m. m(fst r \<mapsto> map (Number h) (snd r)))
                             fourYearRows (feeMatrix T)\<rparr>)"

text \<open>
  \<open>rows[rows.findIndex(...) + 1]\<close>: the row after the header, and row \<open>0\<close> when
  \<open>findIndex\<close> gives \<open>-1\<close>. \<open>None\<close> is \<open>undefined\<close>, a read beyond the last row.
\<close>

definition rowAfterHeader :: "row list \<Rightarrow> string \<Rightarrow> row option" where
  "rowAfterHeader rows header =
     (let i = (case findIndex (\<lambda>r. fst r = header) rows of None \<Rightarrow> 0 | Some k \<Rightarrow> k + 1)
      in if i < length rows then Some (rows ! i) else None)"

text \<open>The \<open>reduce\<close> that numbers the FTE options, starting from \<open>{}\<close>.\<close>

definition indexMapOf :: "string list \<Rightarrow> (string \<rightharpoonup> nat)" where
  "indexMapOf options =
     fold (\<lambda>(val, index) acc. setNumberProp acc val index)
          (zip options [0 ..< length options]) Map.empty"

text \<open>"Parse two-year GIE options and fees".\<close>

definition loadTwoYear :: "host \<Rightarrow> row list \<Rightarrow> tables \<Rightarrow> tables" where
  "loadTwoYear h rows T =
     (let twoYearRows = parseSection rows ''Two-Year Institution Fees''
      in T\<lparr>twoYearGieOptions :=
             map (\<lambda>r. \<lparr>optionValue = fst r, optionFee = secondCellNumber h r\<rparr>) twoYearRows\<rparr>)"

text \<open>"Parse non-higher education fees".\<close>

definition loadNonHigherEd :: "host \<Rightarrow> row list \<Rightarrow> tables \<Rightarrow> tables" where
  "loadNonHigherEd h rows T =
     (let nonHigherEdRows = parseSection rows ''Non-Higher Education Fees''
      in T\<lparr>nonHigherEdFees := fold (\<lambda>r m. m(fst r \<mapsto> secondCellNumber h r))
                                   nonHigherEdRows (nonHigherEdFees T)\<rparr>)"

text \<open>\<open>row[0].charAt(0).toUpperCase() + row[0].slice(1)\<close>\<close>

definition capitalize :: "host \<Rightarrow> string \<Rightarrow> string" where
  "capitalize h s = (case s of [] \<Rightarrow> [] | c # cs \<Rightarrow> toUpperCase h c @ cs)"

text \<open>"Parse business partner fees".\<close>

definition loadBusinessPartner :: "host \<Rightarrow> row list \<Rightarrow> tables \<Rightarrow> tables" where
  "loadBusinessPartner h rows T =
     (let businessPartnerRows = parseSection rows ''Business Partner Fees''
      in T\<lparr>businessPartnerLevels :=
             map (\<lambda>r. \<lparr>itemValue = fst r, itemLabel = capitalize h (fst r)\<rparr>) businessPartnerRows,
           businessPartnerFees := fold (\<lambda>r m. m(fst r \<mapsto> secondCellNumber h r))
                                       businessPartnerRows (businessPartnerFees T)\<rparr>)"

text \<open>"Parse regional fee multipliers".\<close>

definition loadRegional :: "host \<Rightarrow> row list \<Rightarrow> tables \<Rightarrow> tables" where
  "loadRegional h rows T =
     (let regionalMultiplierRows = parseSection rows ''Regional Fee Multipliers''
      in T\<lparr>regions := map (\<lambda>r. \<lparr>itemValue = fst r, itemLabel = fst r\<rparr>) regionalMultiplierRows,
           regionMultipliers := fold (\<lambda>r m. setNumberProp m (fst r) (secondCellNumber h r))
                                     regionalMultiplierRows (regionMultipliers T)\<rparr>)"

datatype error = TypeError

text \<open>
  The body of the handler that receives the text of the file, from the rows on. The read of
  the FTE options calls \<open>slice\<close> on the row after the header; when there is no such row
  this is a \<open>TypeError\<close>, and the tables stay as the four-year step left them. The last
  line of the handler fills the dropdowns of the page and does not touch the tables.
\<close>

definition loadRows :: "host \<Rightarrow> row list \<Rightarrow> tables \<Rightarrow> error option \<times> tables" where
  "loadRows h rows T =
     (let T1 = loadFourYear h rows T
      in case rowAfterHeader rows ''Four-Year Institution Fees'' of
           None \<Rightarrow> (Some TypeError, T1)
         | Some r \<Rightarrow>
             (let T2 = T1\<lparr>fteOptions := snd r, fteIndexMap := indexMapOf (snd r)\<rparr>
              in (None,
                  loadRegional h rows
                    (loadBusinessPartner h rows
                      (loadNonHigherEd h rows (loadTwoYear h rows T2))))))"

definition loadData :: "host \<Rightarrow> string \<Rightarrow> tables \<Rightarrow> error option \<times> tables" where
  "loadData h data T = loadRows h (parseRows data) T"

text \<open>
  A host for the examples: \<open>Number\<close> on the empty string and on unsigned decimal integers,
  \<open>NaN\<close> on every other cell used below; \<open>toUpperCase\<close> on the letters a to z.
\<close>

fun digitsValue :: "nat \<Rightarrow> string \<Rightarrow> nat option" where
  "digitsValue acc [] = Some acc"
| "digitsValue acc (c # cs) =
     (if (48::nat) \<le> of_char c \<and> of_char c \<le> (57::nat)
      then digitsValue (10 * acc + (of_char c - 48)) cs else None)"

definition exampleHost :: host where
  "exampleHost =
     \<lparr>Number = (\<lambda>s. case digitsValue 0 s of None \<Rightarrow> NaN | Some n \<Rightarrow> Fin (of_nat n)),
      toUpperCase = (\<lambda>c. if (97::nat) \<le> of_char c \<and> of_char c \<le> (122::nat)
                          then [char_of (of_char c - (32::nat))] else [c])\<rparr>"

section \<open>Example data\<close>

text \<open>
  Tables of the kind that the loader leaves for a file whose sections begin with a line
  of column titles: that line is loaded like any other row, and its fee cells are \<open>NaN\<close>.
\<close>

definition exampleTables :: tables where
  "exampleTables =
     \<lparr>feeMatrix = [''GIE'' \<mapsto> [NaN, NaN], ''Under $5M'' \<mapsto> [Fin 500, Fin 750]],
      gieOptions = [''GIE'', ''Under $5M''],
      nonHigherEdFees = [''Type'' \<mapsto> NaN, ''K-12'' \<mapsto> Fin 300],
      businessPartnerFees = [''Level'' \<mapsto> NaN, ''gold'' \<mapsto> Fin 1000],
      regionMultipliers = [''Region'' \<mapsto> NaN, ''ERAPPA'' \<mapsto> Fin (1 / 4)],
      fteOptions = [''Under 1000'', ''1000+''],
      fteIndexMap = [''Under 1000'' \<mapsto> 0, ''1000+'' \<mapsto> 1],
      twoYearGieOptions =
        [\<lparr>optionValue = ''GIE'', optionFee = NaN\<rparr>,
         \<lparr>optionValue = ''Under $5M'', optionFee = Fin 400\<rparr>],
      businessPartnerLevels =
        [\<lparr>itemValue = ''Level'', itemLabel = ''Level''\<rparr>,
         \<lparr>itemValue = ''gold'', itemLabel = ''Gold''\<rparr>],
      regions =
        [\<lparr>itemValue = ''Region'', itemLabel = ''Region''\<rparr>,
         \<lparr>itemValue = ''ERAPPA'', itemLabel = ''ERAPPA''\<rparr>]\<rparr>"

text \<open>A page with nothing selected and the result lines still empty.\<close>

definition blankPage :: page where
  "blankPage =
     \<lparr>institutionTypeValue = [], fieValue = [], gieValue = [], gieTwoYearValue = [],
      businessLevelValue = [], regionValue = [],
      nationalFeeText = Text [], regionalFeeText = Text [], totalFeeText = Text []\<rparr>"

definition twoYearPage :: page where
  "twoYearPage =
     blankPage\<lparr>institutionTypeValue := ''two-year'', gieTwoYearValue := ''Under $5M'',
               regionValue := ''ERAPPA''\<rparr>"

definition partnerPage :: page where
  "partnerPage =
     blankPage\<lparr>institutionTypeValue := ''business-partner'', businessLevelValue := ''gold''\<rparr>"


text \<open>
  A file without the section of the four-year fees: two lines, the header of the two-year
  section with a second cell, and one row of that section.
\<close>

definition headerlessText :: string where
  "headerlessText =
     ''Two-Year Institution Fees,Fee'' @ [CHR 0x0A] @
     ''Under $5M,400''"

text \<open>A file with all five sections, each with a fee cell that is not a number.\<close>

definition malformedText :: string where
  "malformedText =
     ''Four-Year Institution Fees'' @ [CHR 0x0A] @
     ''GIE,Small,Large'' @ [CHR 0x0A] @
     ''Under $5M,500,n/a'' @ [CHR 0x0A] @
     [CHR 0x0A] @
     ''Two-Year Institution Fees'' @ [CHR 0x0A] @
     ''Under $5M,n/a'' @ [CHR 0x0A] @
     [CHR 0x0A] @
     ''Non-Higher Education Fees'' @ [CHR 0x0A] @
     ''K-12,n/a'' @ [CHR 0x0A] @
     [CHR 0x0A] @
     ''Business Partner Fees'' @ [CHR 0x0A] @
     ''gold,n/a'' @ [CHR 0x0A] @
     [CHR 0x0A] @
     ''Regional Fee Multipliers'' @ [CHR 0x0A] @
     ''ERAPPA,n/a''"


section \<open>Helper facts\<close>

lemma orZero_eq: "orZero v = (if v = NaN then Fin 0 else v)"
  by (auto simp: orZero_def falsy_def)


lemma find_first_option:
  "optionValue opt = l \<Longrightarrow> l \<notin> optionValue ` set pre \<Longrightarrow>
   find (\<lambda>option. optionValue option = l) (pre @ opt # post) = Some opt"
  by (induction pre) auto

lemma find_no_option:
  "l \<notin> optionValue ` set xs \<Longrightarrow> find (\<lambda>option. optionValue option = l) xs = None"
  by (induction xs) auto


lemmas example_defs = exampleTables_def blankPage_def twoYearPage_def partnerPage_def

lemmas lookup_defs = getFourYearFee_def getProp_def fieIndexOf_def cellOrZero_def
  getRegionalFee_def multiplierOrZero_def getNonHigherEdFee_def getBusinessPartnerFee_def
  getTwoYearFee_def objectPrototypeProps_def

section \<open>Properties of the fee lookups\<close>

text \<open>
  C1, as stated: for an FTE label of the index map and a GIE label of the matrix,
  \<open>getFourYearFee\<close> returns exactly the cell of the GIE row at the column of the FTE label.
  This fails where the cell is \<open>NaN\<close>: the row of column titles is such a row, and the
  lookup gives \<open>0\<close> there.
\<close>

theorem getFourYearFee_exact_cell_counterexample:
  "fteIndexMap exampleTables ''Under 1000'' = Some 0
   \<and> feeMatrix exampleTables ''GIE'' = Some [NaN, NaN]
   \<and> getFourYearFee exampleTables ''Under 1000'' ''GIE'' = Fin 0
   \<and> [NaN, NaN] ! 0 \<noteq> Fin 0"
  by (simp add: example_defs lookup_defs orZero_eq)

text \<open>
  C1, amended: for an FTE label of the index map and a GIE label of the matrix,
  \<open>getFourYearFee\<close> returns the cell of the GIE row at the column of the FTE label when the
  row has such a cell and the cell is not \<open>NaN\<close>, and \<open>0\<close> otherwise.
\<close>

theorem getFourYearFee_cell:
  assumes "fteIndexMap T fie = Some i" and "feeMatrix T gie = Some row"
  shows "getFourYearFee T fie gie =
           (if i < length row \<and> row ! i \<noteq> NaN then row ! i else Fin 0)"
  using assms
  by (simp add: getFourYearFee_def getProp_def fieIndexOf_def cellOrZero_def orZero_eq)

theorem getFourYearFee_cell_witness:
  "fteIndexMap exampleTables ''1000+'' = Some 1
   \<and> feeMatrix exampleTables ''Under $5M'' = Some [Fin 500, Fin 750]
   \<and> getFourYearFee exampleTables ''1000+'' ''Under $5M'' = Fin 750"
  using getFourYearFee_cell [of exampleTables "''1000+''" 1 "''Under $5M''" "[Fin 500, Fin 750]"]
  by (simp add: example_defs)




text \<open>
  C3, as stated: a label that is in its table gets the flat fee stored for it from each of
  \<open>getNonHigherEdFee\<close>, \<open>getBusinessPartnerFee\<close> and \<open>getTwoYearFee\<close>. This fails for a
  stored fee \<open>NaN\<close> in a \<open>Map\<close>: \<open>getNonHigherEdFee\<close> returns \<open>0\<close>.
\<close>

theorem flat_fee_stored_counterexample:
  "nonHigherEdFees exampleTables ''Type'' = Some NaN
   \<and> getNonHigherEdFee exampleTables ''Type'' = Fin 0
   \<and> Fin 0 \<noteq> NaN"
  by (simp add: example_defs lookup_defs orZero_eq)

text \<open>
  C3, amended: for a label that is not in the corresponding table each of
  \<open>getNonHigherEdFee\<close>, \<open>getBusinessPartnerFee\<close> and \<open>getTwoYearFee\<close> returns \<open>0\<close>; none of
  the three has a failing branch. For a label that is in the table, \<open>getTwoYearFee\<close>
  returns the fee of the first option with that label, and \<open>getNonHigherEdFee\<close> and
  \<open>getBusinessPartnerFee\<close> return the stored fee unless it is \<open>NaN\<close>, for which they
  return \<open>0\<close>.
\<close>

theorem flat_fee_lookups:
  "(nonHigherEdFees T l = None \<longrightarrow> getNonHigherEdFee T l = Fin 0) \<and>
   (businessPartnerFees T l = None \<longrightarrow> getBusinessPartnerFee T l = Fin 0) \<and>
   (l \<notin> optionValue ` set (twoYearGieOptions T) \<longrightarrow> getTwoYearFee T l = Fin 0) \<and>
   (nonHigherEdFees T l = Some v \<longrightarrow>
      getNonHigherEdFee T l = (if v = NaN then Fin 0 else v)) \<and>
   (businessPartnerFees T l = Some w \<longrightarrow>
      getBusinessPartnerFee T l = (if w = NaN then Fin 0 else w)) \<and>
   (twoYearGieOptions T = pre @ opt # post \<and> optionValue opt = l
      \<and> l \<notin> optionValue ` set pre \<longrightarrow> getTwoYearFee T l = optionFee opt)"
  by (auto simp: getNonHigherEdFee_def getBusinessPartnerFee_def getTwoYearFee_def
      orZero_eq find_first_option find_no_option)

theorem flat_fee_lookups_witness:
  "nonHigherEdFees exampleTables ''gold'' = None
   \<and> getNonHigherEdFee exampleTables ''gold'' = Fin 0
   \<and> businessPartnerFees exampleTables ''K-12'' = None
   \<and> getBusinessPartnerFee exampleTables ''K-12'' = Fin 0
   \<and> ''gold'' \<notin> optionValue ` set (twoYearGieOptions exampleTables)
   \<and> getTwoYearFee exampleTables ''gold'' = Fin 0
   \<and> nonHigherEdFees exampleTables ''K-12'' = Some (Fin 300)
   \<and> getNonHigherEdFee exampleTables ''K-12'' = Fin 300
   \<and> businessPartnerFees exampleTables ''gold'' = Some (Fin 1000)
   \<and> getBusinessPartnerFee exampleTables ''gold'' = Fin 1000
   \<and> twoYearGieOptions exampleTables =
       [\<lparr>optionValue = ''GIE'', optionFee = NaN\<rparr>]
         @ \<lparr>optionValue = ''Under $5M'', optionFee = Fin 400\<rparr> # []
   \<and> getTwoYearFee exampleTables ''Under $5M'' = Fin 400"
  using flat_fee_lookups [of exampleTables "''gold''" "Fin 0" "Fin 1000" "[]"
      "\<lparr>optionValue = ''GIE'', optionFee = NaN\<rparr>" "[]"]
    flat_fee_lookups [of exampleTables "''K-12''" "Fin 300" "Fin 0" "[]"
      "\<lparr>optionValue = ''GIE'', optionFee = NaN\<rparr>" "[]"]
    flat_fee_lookups [of exampleTables "''Under $5M''" "Fin 0" "Fin 0"
      "[\<lparr>optionValue = ''GIE'', optionFee = NaN\<rparr>]"
      "\<lparr>optionValue = ''Under $5M'', optionFee = Fin 400\<rparr>" "[]"]
  by (simp add: example_defs)

text \<open>
  C4, as stated: an FTE label that is not in the index map resolves to column \<open>0\<close>, so for
  a GIE row of the matrix the lookup yields the value at index \<open>0\<close> of that row. This
  fails where that value is \<open>NaN\<close>: the lookup yields \<open>0\<close>. It also fails for a label that
  is not in the index map but names a member of \<open>Object.prototype\<close>: the label resolves to
  that member, which is no column, and the lookup yields \<open>0\<close> where index \<open>0\<close> holds \<open>500\<close>.
\<close>

theorem getFourYearFee_unknown_fte_counterexample:
  "fteIndexMap exampleTables ''5000+'' = None
   \<and> feeMatrix exampleTables ''GIE'' = Some [NaN, NaN]
   \<and> getFourYearFee exampleTables ''5000+'' ''GIE'' = Fin 0
   \<and> [NaN, NaN] ! 0 \<noteq> Fin 0
   \<and> fteIndexMap exampleTables ''toString'' = None
   \<and> feeMatrix exampleTables ''Under $5M'' = Some [Fin 500, Fin 750]
   \<and> getFourYearFee exampleTables ''toString'' ''Under $5M'' = Fin 0
   \<and> [Fin 500, Fin 750] ! 0 \<noteq> Fin 0"
  by (simp add: example_defs lookup_defs orZero_eq)

text \<open>
  C4, amended: an FTE label that is neither in the index map nor a property name of
  \<open>Object.prototype\<close> resolves to column \<open>0\<close>: for a GIE row of the matrix the lookup yields
  the value at index \<open>0\<close> of that row when the row has one and it is not \<open>NaN\<close>, and \<open>0\<close>
  otherwise. Whenever the GIE row is not in the matrix the lookup returns \<open>0\<close>, whatever
  the FTE label.
\<close>

theorem getFourYearFee_unknown_fte:
  "(fteIndexMap T fie = None \<and> fie \<notin> set objectPrototypeProps
      \<and> feeMatrix T gie = Some row \<longrightarrow>
      getFourYearFee T fie gie =
        (if 0 < length row \<and> row ! 0 \<noteq> NaN then row ! 0 else Fin 0)) \<and>
   (feeMatrix T gie = None \<longrightarrow> getFourYearFee T fie gie = Fin 0)"
  by (auto simp: getFourYearFee_def getProp_def fieIndexOf_def cellOrZero_def orZero_eq)

theorem getFourYearFee_unknown_fte_witness:
  "fteIndexMap exampleTables ''5000+'' = None \<and> ''5000+'' \<notin> set objectPrototypeProps
   \<and> feeMatrix exampleTables ''Under $5M'' = Some [Fin 500, Fin 750]
   \<and> getFourYearFee exampleTables ''5000+'' ''Under $5M'' = Fin 500
   \<and> feeMatrix exampleTables ''Over $5M'' = None
   \<and> getFourYearFee exampleTables ''1000+'' ''Over $5M'' = Fin 0"
  using getFourYearFee_unknown_fte [of exampleTables "''5000+''" "''Under $5M''"
      "[Fin 500, Fin 750]"]
    getFourYearFee_unknown_fte [of exampleTables "''1000+''" "''Over $5M''" "[]"]
  by (simp add: example_defs objectPrototypeProps_def)

text \<open>
  C10: for a GIE label whose row is in the fee matrix, if the resolved FTE column lies
  beyond the end of the row, or the cell there is \<open>NaN\<close> or \<open>0\<close>, then \<open>getFourYearFee\<close>
  returns \<open>0\<close>. The lookup has no failing branch, and a stored falsy cell gives the same
  result as a missing one. (An FTE label that resolves to an inherited value instead of a
  column gives \<open>0\<close> as well.)
\<close>

theorem getFourYearFee_falsy_cell:
  assumes "feeMatrix T gie = Some row"
    and "\<forall>i. fieIndexOf T fie = Some i \<longrightarrow> i < length row \<longrightarrow>
           row ! i = NaN \<or> row ! i = Fin 0"
  shows "getFourYearFee T fie gie = Fin 0"
  using assms
  by (auto simp: getFourYearFee_def getProp_def cellOrZero_def orZero_eq
      split: option.splits)

theorem getFourYearFee_falsy_cell_witness:
  "feeMatrix exampleTables ''GIE'' = Some [NaN, NaN]
   \<and> fieIndexOf exampleTables ''1000+'' = Some 1
   \<and> [NaN, NaN] ! 1 = NaN
   \<and> getFourYearFee exampleTables ''1000+'' ''GIE'' = Fin 0
   \<and> feeMatrix exampleTables ''Under $5M'' = Some [Fin 500, Fin 750]
   \<and> fieIndexOf (exampleTables\<lparr>fteIndexMap := [''5000+'' \<mapsto> 2]\<rparr>) ''5000+'' = Some 2
   \<and> \<not> 2 < length [Fin 500, Fin 750]
   \<and> getFourYearFee (exampleTables\<lparr>fteIndexMap := [''5000+'' \<mapsto> 2]\<rparr>) ''5000+'' ''Under $5M''
       = Fin 0"
  using getFourYearFee_falsy_cell [of exampleTables "''GIE''" "[NaN, NaN]" "''1000+''"]
    getFourYearFee_falsy_cell [of "exampleTables\<lparr>fteIndexMap := [''5000+'' \<mapsto> 2]\<rparr>"
      "''Under $5M''" "[Fin 500, Fin 750]" "''5000+''"]
  by (simp add: example_defs fieIndexOf_def getProp_def)

section \<open>Properties of the fee calculation\<close>





section \<open>Properties of the table loader\<close>

lemma findIndex_None: "findIndex P xs = None \<longleftrightarrow> (\<forall>x \<in> set xs. \<not> P x)"
  by (induction xs) auto

text \<open>Without its header a section is empty \<dots>\<close>

lemma parseSection_without_header:
  "\<forall>r \<in> set rows. fst r \<noteq> header \<Longrightarrow> parseSection rows header = []"
  by (simp add: parseSection_def findIndex_None [THEN iffD2])

text \<open>\<dots> but the FTE options are then read from the first row of the file.\<close>

lemma fteOptions_without_header:
  assumes "\<forall>r \<in> set (r0 # rows). fst r \<noteq> ''Four-Year Institution Fees''"
  shows "fst (loadRows h (r0 # rows) T) = None
         \<and> fteOptions (snd (loadRows h (r0 # rows) T)) = snd r0"
proof -
  have "findIndex (\<lambda>r. fst r = ''Four-Year Institution Fees'') (r0 # rows) = None"
    using assms by (simp only: findIndex_None)
  then have "rowAfterHeader (r0 # rows) ''Four-Year Institution Fees'' = Some r0"
    by (simp add: rowAfterHeader_def)
  then show ?thesis
    by (simp add: loadRows_def Let_def loadTwoYear_def loadNonHigherEd_def
        loadBusinessPartner_def loadRegional_def)
qed

lemma parseRows_headerlessText:
  "parseRows headerlessText =
     [(''Two-Year Institution Fees'', [''Fee'']), (''Under $5M'', [''400''])]"
  by (simp add: headerlessText_def parseRows_def cleanCell_def trim_def isWhiteSpace_def)

lemmas loader_defs = loadRows_def loadFourYear_def loadTwoYear_def loadNonHigherEd_def
  loadBusinessPartner_def loadRegional_def parseSection_def rowAfterHeader_def indexMapOf_def
  setNumberProp_def blankRow_def secondCellNumber_def capitalize_def exampleHost_def
  initialTables_def

text \<open>
  C7 says that a file without a section header loads empty structures for that section,
  the FTE option list and the FTE index map included. On the file \<open>headerlessText\<close> no row
  is the header of the four-year section and nothing is thrown, yet the FTE options are
  the rest of the first row of the file and the index map numbers them.
\<close>

theorem fteOptions_not_empty_without_header:
  "findIndex (\<lambda>r. fst r = ''Four-Year Institution Fees'') (parseRows headerlessText) = None
   \<and> fst (loadData exampleHost headerlessText initialTables) = None
   \<and> gieOptions (snd (loadData exampleHost headerlessText initialTables)) = []
   \<and> fteOptions (snd (loadData exampleHost headerlessText initialTables)) = [''Fee'']
   \<and> fteIndexMap (snd (loadData exampleHost headerlessText initialTables)) ''Fee'' = Some 0"
  by (simp add: loadData_def parseRows_headerlessText loader_defs)

lemma fold_update:
  "fold (\<lambda>r m. m(key r \<mapsto> val r)) rs m = m ++ map_of (rev (map (\<lambda>r. (key r, val r)) rs))"
  by (induction rs arbitrary: m) simp_all

lemma fold_setNumberProp:
  "fold (\<lambda>r m. setNumberProp m (key r) (val r)) rs m =
   m ++ map_of (rev (map (\<lambda>r. (key r, val r)) (filter (\<lambda>r. key r \<noteq> ''__proto__'') rs)))"
  by (induction rs arbitrary: m) (simp_all add: setNumberProp_def)

lemma map_add_twice: "(m ++ n) ++ n = m ++ n"
  by (rule ext) (simp add: map_add_def split: option.splits)

lemma fold_update_twice:
  "fold (\<lambda>r m. m(key r \<mapsto> val r)) rs (fold (\<lambda>r m. m(key r \<mapsto> val r)) rs m) =
   fold (\<lambda>r m. m(key r \<mapsto> val r)) rs m"
  by (simp add: fold_update map_add_twice)

lemma fold_setNumberProp_twice:
  "fold (\<lambda>r m. setNumberProp m (key r) (val r)) rs
     (fold (\<lambda>r m. setNumberProp m (key r) (val r)) rs m) =
   fold (\<lambda>r m. setNumberProp m (key r) (val r)) rs m"
  by (simp add: fold_setNumberProp map_add_twice)

text \<open>
  C9: loading the same text twice yields identical tables. The loader is a function of the
  text and of the tables it starts from; the tables are globals that it never clears, so
  the second run starts from the result of the first. It ends in the same way and leaves
  every table as the first run did: the fee matrix, the FTE index map, the two-year
  options, the non-higher-ed fees, the business-partner fees and the region multipliers,
  and the option lists as well.
\<close>

theorem loadData_twice:
  "loadData h data (snd (loadData h data T)) = loadData h data T"
  by (simp add: loadData_def loadRows_def Let_def loadFourYear_def loadTwoYear_def
      loadNonHigherEd_def loadBusinessPartner_def loadRegional_def
      fold_update_twice fold_setNumberProp_twice split: option.splits)

theorem loadData_twice_witness:
  "loadData exampleHost malformedText (snd (loadData exampleHost malformedText initialTables))
   = loadData exampleHost malformedText initialTables"
  by (rule loadData_twice)

subsection \<open>Cells that are not numbers\<close>























end
